theory Spec2Isabelle
  imports Complex_Main "HOL-Library.Sublist"
begin

section \<open>Strings and numbers of the host language\<close>

text \<open>
  A TypeScript string is modelled as a \<^typ>\<open>string\<close>: the list of the bytes of its
  UTF-8 encoding (an ASCII character is one byte). Containment, concatenation and
  equality of well-formed strings agree with those of their encodings. A value of type
  \<open>T | undefined\<close> is a \<^typ>\<open>'a option\<close>, \<open>undefined\<close> being \<^term>\<open>None\<close>.
\<close>

text \<open>
  A value of type \<open>number\<close> is a finite number, NaN or an infinity. The finite ones are
  rationals; negative zero is zero, which it equals, prints as and is as falsy as.
\<close>

datatype number = Finite rat | NaN | Infinity | NegInfinity

text \<open>\<open>if (s)\<close> for \<open>s: string | undefined\<close>: defined and not the empty string.\<close>

fun truthy_str :: "string option \<Rightarrow> bool" where
  "truthy_str None = False"
| "truthy_str (Some s) = (s \<noteq> [])"

text \<open>\<open>if (n)\<close> for \<open>n: number | undefined\<close>: defined, not zero and not NaN.\<close>

fun truthy_num :: "number option \<Rightarrow> bool" where
  "truthy_num None = False"
| "truthy_num (Some (Finite q)) = (q \<noteq> 0)"
| "truthy_num (Some NaN) = False"
| "truthy_num (Some Infinity) = True"
| "truthy_num (Some NegInfinity) = True"

text \<open>\<open>a || b\<close> on strings: \<open>a\<close> when it is truthy, else \<open>b\<close>.\<close>

fun or_else :: "string option \<Rightarrow> string \<Rightarrow> string" where
  "or_else None d = d"
| "or_else (Some s) d = (if s \<noteq> [] then s else d)"

text \<open>\<open>String.prototype.includes\<close>: some suffix of the string starts with the key.\<close>

fun includes_str :: "string \<Rightarrow> string \<Rightarrow> bool" where
  "includes_str [] k = (k = [])"
| "includes_str (c # cs) k = (take (length k) (c # cs) = k \<or> includes_str cs k)"

text \<open>\<open>String.prototype.replace\<close> with a string pattern: the first occurrence only.\<close>

fun replace_first :: "string \<Rightarrow> string \<Rightarrow> string \<Rightarrow> string" where
  "replace_first [] pat rep = (if pat = [] then rep else [])"
| "replace_first (c # cs) pat rep =
     (if take (length pat) (c # cs) = pat then rep @ drop (length pat) (c # cs)
      else c # replace_first cs pat rep)"

text \<open>\<open>String.prototype.toLowerCase\<close> on the ASCII letters; other bytes are kept.\<close>

definition lower_char :: "char \<Rightarrow> char" where
  "lower_char c =
     (case map_of (zip ''ABCDEFGHIJKLMNOPQRSTUVWXYZ'' ''abcdefghijklmnopqrstuvwxyz'') c of
        Some l \<Rightarrow> l
      | None \<Rightarrow> c)"

definition toLowerCase :: "string \<Rightarrow> string" where
  "toLowerCase s = map lower_char s"

text \<open>The decimal digits of an integer, after a minus sign when it is negative.\<close>

definition digit_char :: "nat \<Rightarrow> char" where
  "digit_char d = ''0123456789'' ! d"

function show_nat :: "nat \<Rightarrow> string" where
  "show_nat n = (if n < 10 then [digit_char n] else show_nat (n div 10) @ [digit_char (n mod 10)])"
  by pat_completeness auto
termination
  by (relation "measure id") auto

declare show_nat.simps [simp del]

definition show_int :: "int \<Rightarrow> string" where
  "show_int i = (if i < 0 then CHR ''-'' # show_nat (nat (- i)) else show_nat (nat i))"

text \<open>
  A number as a string, as a template literal embeds it. An integer of magnitude up to
  \<open>2^53\<close> is printed with all its decimal digits. For every other finite number (a
  fraction, or an integer beyond \<open>2^53\<close>, where the engine prints the shortest digits that
  read back as the same number and, from \<open>10^21\<close> on, an exponent) the result is what
  \<open>Number.prototype.toString\<close> of the engine returns, which the model takes as the
  function \<open>numberToString\<close>.
\<close>

definition show_num :: "(rat \<Rightarrow> string) \<Rightarrow> rat \<Rightarrow> string" where
  "show_num numberToString q =
     (if of_int \<lfloor>q\<rfloor> = q \<and> - 9007199254740992 \<le> q \<and> q \<le> 9007199254740992
      then show_int \<lfloor>q\<rfloor>
      else numberToString q)"

fun num_str :: "(rat \<Rightarrow> string) \<Rightarrow> number \<Rightarrow> string" where
  "num_str numberToString (Finite q) = show_num numberToString q"
| "num_str numberToString NaN = ''NaN''"
| "num_str numberToString Infinity = ''Infinity''"
| "num_str numberToString NegInfinity = ''-Infinity''"

text \<open>A value inside a template literal; \<open>undefined\<close> prints as the word.\<close>

fun tpl_str :: "string option \<Rightarrow> string" where
  "tpl_str None = ''undefined''"
| "tpl_str (Some s) = s"

fun tpl_num :: "(rat \<Rightarrow> string) \<Rightarrow> number option \<Rightarrow> string" where
  "tpl_num numberToString None = ''undefined''"
| "tpl_num numberToString (Some n) = num_str numberToString n"

section \<open>Data model (types.ts)\<close>

datatype EditorType = jetbrains | custom

record EditorConfig =
  name :: string
  type :: EditorType
  path :: string
  urlScheme :: "string option"

record JumpContext =
  filePath :: "string option"
  projectPath :: "string option"
  line :: "number option"
  column :: "number option"

text \<open>The string of an \<open>EditorType\<close> value, as it is written in a message.\<close>

fun type_str :: "EditorType \<Rightarrow> string" where
  "type_str jetbrains = ''jetbrains''"
| "type_str custom = ''custom''"

section \<open>The configuration store\<close>

text \<open>
  The settings under the namespace \<open>switch2idea\<close> that the code reads and writes: the
  list under the key \<open>editors\<close> and the string under the key \<open>ideaPath\<close>, each absent
  or set. \<open>config.get\<close> hands out a copy of the stored value and \<open>config.update\<close>
  replaces it.
\<close>

record Store =
  editors :: "EditorConfig list option"
  ideaPath :: "string option"

subsection \<open>ConfigManager\<close>

definition getDefaultEditors :: "EditorConfig list" where
  "getDefaultEditors =
     [\<lparr>name = ''IntelliJ IDEA'', type = jetbrains, path = '''', urlScheme = Some ''idea''\<rparr>]"

text \<open>
  The part of \<open>getEditors\<close> after the primary list was found absent or empty: the legacy
  path when it is truthy, else the built-in default.
\<close>

definition getEditors_legacy :: "Store \<Rightarrow> EditorConfig list" where
  "getEditors_legacy config =
     (case ideaPath config of
        Some legacyPath \<Rightarrow>
          (if legacyPath \<noteq> []
           then [\<lparr>name = ''IntelliJ IDEA'', type = jetbrains,
                  path = legacyPath, urlScheme = Some ''idea''\<rparr>]
           else getDefaultEditors)
      | None \<Rightarrow> getDefaultEditors)"

definition getEditors :: "Store \<Rightarrow> EditorConfig list" where
  "getEditors config =
     (case editors config of
        Some es \<Rightarrow> (if 0 < length es then es else getEditors_legacy config)
      | None \<Rightarrow> getEditors_legacy config)"

section \<open>The JetBrains handler (handlers/jetbrainsHandler.ts)\<close>

subsection \<open>Messages\<close>

text \<open>
  \<open>l10n.t\<close> with no translation bundle loaded: each \<open>{i}\<close> of the template is
  replaced by the i-th argument, once.
\<close>

definition noFileOrProject :: string where
  "noFileOrProject = ''No file or project path provided!''"

definition editorNotFound :: "string \<Rightarrow> string \<Rightarrow> string" where
  \<open>editorNotFound nm pth =
     ''Cannot launch '' @ nm @ '': "'' @ pth @ ''" not found. Please check the editor path config.''\<close>

definition executionFailed :: "string \<Rightarrow> string \<Rightarrow> string" where
  "executionFailed nm err = ''Failed to launch '' @ nm @ '': '' @ err"

subsection \<open>encodeURIComponent\<close>

text \<open>
  Every byte of the UTF-8 encoding is written as \<open>%XX\<close> (upper-case hexadecimal), but
  the unreserved characters: letters, digits and \<open>- _ . ! ~ * ' ( )\<close>. A string with an
  unpaired surrogate, on which the function throws, has no UTF-8 encoding and is not a
  value of the model.
\<close>

definition uri_unreserved :: string where
  "uri_unreserved =
     ''ABCDEFGHIJKLMNOPQRSTUVWXYZabcdefghijklmnopqrstuvwxyz0123456789-_.!~*()'' @ [CHR 0x27]"

definition hex_digit :: "nat \<Rightarrow> char" where
  "hex_digit d = ''0123456789ABCDEF'' ! d"

definition encode_byte :: "char \<Rightarrow> string" where
  "encode_byte c =
     (if c \<in> set uri_unreserved then [c]
      else [CHR ''%'', hex_digit ((of_char c :: nat) div 16), hex_digit ((of_char c :: nat) mod 16)])"

definition encodeURIComponent :: "string \<Rightarrow> string" where
  "encodeURIComponent s = concat (map encode_byte s)"

subsection \<open>Command construction\<close>

text \<open>
  A thrown \<open>Error\<close> is \<^term>\<open>Inl\<close> of its message; a returned command is \<^term>\<open>Inr\<close>.
  The first argument of each builder is \<open>numberToString\<close> of the engine, which prints
  the line and the column.
\<close>

definition buildMacCommand ::
  "(rat \<Rightarrow> string) \<Rightarrow> EditorConfig \<Rightarrow> JumpContext \<Rightarrow> string \<Rightarrow> string + string" where
  \<open>buildMacCommand numberToString config context appPath =
     (let scheme = or_else (urlScheme config) ''idea'' in
      case
        (if truthy_str (filePath context) then
           Inr (scheme @ ''://open?file='' @ encodeURIComponent (tpl_str (filePath context))
                @ (if truthy_num (line context)
                   then ''&line='' @ tpl_num numberToString (line context) else [])
                @ (if column context \<noteq> None
                   then ''&column='' @ tpl_num numberToString (column context) else []))
         else if truthy_str (projectPath context) then
           Inr (scheme @ ''://open?file='' @ encodeURIComponent (tpl_str (projectPath context)))
         else Inl noFileOrProject)
      of
        Inl err \<Rightarrow> Inl err
      | Inr url \<Rightarrow> Inr (''open -a "'' @ appPath @ ''" "'' @ url @ ''"''))\<close>

definition buildCliCommand ::
  "(rat \<Rightarrow> string) \<Rightarrow> JumpContext \<Rightarrow> string \<Rightarrow> string + string" where
  \<open>buildCliCommand numberToString context execPath =
     (if truthy_str (filePath context) then
        Inr (''"'' @ execPath @ ''"''
             @ (if truthy_num (line context)
                then '' --line '' @ tpl_num numberToString (line context) else [])
             @ (if column context \<noteq> None
                then '' --column '' @ tpl_num numberToString (column context) else [])
             @ '' "'' @ tpl_str (filePath context) @ ''"'')
      else if truthy_str (projectPath context) then
        Inr (''"'' @ execPath @ ''" "'' @ tpl_str (projectPath context) @ ''"'')
      else Inl noFileOrProject)\<close>

subsection \<open>Default paths\<close>

record AppInfo =
  mac :: string
  win :: string
  linux :: string

definition idea_info :: AppInfo where
  "idea_info = \<lparr>mac = ''IntelliJ IDEA'', win = ''idea64.exe'', linux = ''idea.sh''\<rparr>"

text \<open>The entries of \<open>appNameMap\<close>, in the order \<open>Object.entries\<close> lists them.\<close>

definition appNameMap :: "(string \<times> AppInfo) list" where
  "appNameMap =
     [(''intellij idea'', idea_info),
      (''webstorm'', \<lparr>mac = ''WebStorm'', win = ''webstorm64.exe'', linux = ''webstorm.sh''\<rparr>),
      (''pycharm'', \<lparr>mac = ''PyCharm'', win = ''pycharm64.exe'', linux = ''pycharm.sh''\<rparr>),
      (''goland'', \<lparr>mac = ''GoLand'', win = ''goland64.exe'', linux = ''goland.sh''\<rparr>),
      (''phpstorm'', \<lparr>mac = ''PhpStorm'', win = ''phpstorm64.exe'', linux = ''phpstorm.sh''\<rparr>),
      (''rider'', \<lparr>mac = ''Rider'', win = ''rider64.exe'', linux = ''rider.sh''\<rparr>),
      (''clion'', \<lparr>mac = ''CLion'', win = ''clion64.exe'', linux = ''clion.sh''\<rparr>),
      (''rubymine'', \<lparr>mac = ''RubyMine'', win = ''rubymine64.exe'', linux = ''rubymine.sh''\<rparr>),
      (''datagrip'', \<lparr>mac = ''DataGrip'', win = ''datagrip64.exe'', linux = ''datagrip.sh''\<rparr>),
      (''android studio'', \<lparr>mac = ''Android Studio'', win = ''studio64.exe'', linux = ''studio.sh''\<rparr>)]"

text \<open>
  The loop over the entries: \<open>appInfo\<close> starts as the IntelliJ IDEA entry and is replaced
  by the value of the first key that the name includes, where the loop breaks.
\<close>

fun find_app :: "string \<Rightarrow> (string \<times> AppInfo) list \<Rightarrow> AppInfo \<Rightarrow> AppInfo" where
  "find_app nm [] appInfo = appInfo"
| "find_app nm ((key, val) # rest) appInfo =
     (if includes_str nm key then val else find_app nm rest appInfo)"

text \<open>
  What the handler reads of the machine: \<open>os.platform()\<close>, \<open>process.env.LOCALAPPDATA\<close>
  and \<open>os.homedir()\<close>.
\<close>

record Host =
  os_platform :: string
  env_LOCALAPPDATA :: "string option"
  os_homedir :: string

definition backslash :: char where
  "backslash = CHR 0x5C"

definition getDefaultPath :: "Host \<Rightarrow> string \<Rightarrow> string option \<Rightarrow> string" where
  "getDefaultPath host platform editorName =
     (let nm = or_else (map_option toLowerCase editorName) ''intellij idea'';
          appInfo = find_app nm appNameMap idea_info
      in if platform = ''darwin'' then mac appInfo
         else if platform = ''win32'' then
           tpl_str (env_LOCALAPPDATA host)
           @ [backslash] @ ''JetBrains'' @ [backslash] @ ''Toolbox''
           @ [backslash] @ ''scripts'' @ [backslash]
           @ replace_first (win appInfo) ''64.exe'' []
         else if platform = ''linux'' then
           os_homedir host @ ''/.local/share/JetBrains/Toolbox/scripts/''
           @ replace_first (linux appInfo) ''.sh'' []
         else mac appInfo)"

definition buildCommand ::
  "(rat \<Rightarrow> string) \<Rightarrow> Host \<Rightarrow> EditorConfig \<Rightarrow> JumpContext \<Rightarrow> string + string" where
  "buildCommand numberToString host config context =
     (let platform = os_platform host;
          pth = or_else (Some (path config)) (getDefaultPath host platform (Some (name config)))
      in if platform = ''darwin'' then buildMacCommand numberToString config context pth
         else buildCliCommand numberToString context pth)"

subsection \<open>Execution\<close>

text \<open>
  The notifications of the editor window, in the order they were shown:
  \<open>vscode.window.showErrorMessage\<close> and \<open>vscode.window.showInformationMessage\<close>.
\<close>

record Window =
  shownErrors :: "string list"
  shownInfos :: "string list"

definition showErrorMessage :: "string \<Rightarrow> Window \<Rightarrow> Window" where
  "showErrorMessage msg w = w\<lparr>shownErrors := shownErrors w @ [msg]\<rparr>"

definition showInformationMessage :: "string \<Rightarrow> Window \<Rightarrow> Window" where
  "showInformationMessage msg w = w\<lparr>shownInfos := shownInfos w @ [msg]\<rparr>"

text \<open>The error that \<open>exec\<close> hands to its callback when the child process failed.\<close>

record ExecException =
  message :: string
  code :: "int option"

text \<open>The phrase of the third test, three CJK characters, as the bytes of its UTF-8 encoding.\<close>

definition not_found_zh :: string where
  "not_found_zh =
     [CHR 0xE6, CHR 0x89, CHR 0xBE, CHR 0xE4, CHR 0xB8, CHR 0x8D, CHR 0xE5, CHR 0x88, CHR 0xB0]"

text \<open>
  \<open>executeCommand\<close>, from the callback of \<open>exec\<close> on: the outcome of the child process is
  the argument \<open>error\<close>. The promise rejects with \<^term>\<open>Inl\<close> of the message and resolves
  with \<^term>\<open>Inr\<close>. The warning logged to the console on success is no part of the state.
\<close>

definition executeCommand ::
  "Host \<Rightarrow> EditorConfig \<Rightarrow> ExecException option \<Rightarrow> Window \<Rightarrow> Window \<times> (string + unit)" where
  "executeCommand host config error w =
     (case error of
        Some e \<Rightarrow>
          (let errorMessage =
             (if includes_str (message e) ''ENOENT'' \<or>
                 includes_str (message e) ''not found'' \<or>
                 includes_str (message e) not_found_zh \<or>
                 code e = Some 127
              then editorNotFound (name config)
                     (or_else (Some (path config))
                        (getDefaultPath host (os_platform host) (Some (name config))))
              else executionFailed (name config) (message e))
           in (showErrorMessage errorMessage w, Inl errorMessage))
      | None \<Rightarrow> (w, Inr ()))"

text \<open>
  \<open>jump\<close>: the operating system is the function \<open>run\<close> from a command to its outcome,
  and \<open>numberToString\<close> is handed on to \<open>buildCommand\<close>.
\<close>

definition jump ::
  "(rat \<Rightarrow> string) \<Rightarrow> (string \<Rightarrow> ExecException option) \<Rightarrow> Host \<Rightarrow> EditorConfig
     \<Rightarrow> JumpContext \<Rightarrow> Window \<Rightarrow> Window \<times> (string + unit)" where
  "jump numberToString run host config context w =
     (case buildCommand numberToString host config context of
        Inl err \<Rightarrow> (w, Inl err)
      | Inr command \<Rightarrow> executeCommand host config (run command) w)"

section \<open>The handler registry (jumpHandlerFactory.ts)\<close>

datatype JumpHandler = JetBrainsHandler

definition unsupportedType :: "string \<Rightarrow> string" where
  "unsupportedType t = ''Unsupported editor type: '' @ t @ ''. Currently supported types: jetbrains''"

type_synonym JumpHandlerFactory = "EditorType \<rightharpoonup> JumpHandler"

text \<open>The constructor registers the JetBrains handler and nothing else.\<close>

definition new_JumpHandlerFactory :: JumpHandlerFactory where
  "new_JumpHandlerFactory = Map.empty(jetbrains \<mapsto> JetBrainsHandler)"

definition getHandler :: "JumpHandlerFactory \<Rightarrow> EditorType \<Rightarrow> string + JumpHandler" where
  "getHandler handlers t =
     (case handlers t of
        None \<Rightarrow> Inl (unsupportedType (type_str t))
      | Some handler \<Rightarrow> Inr handler)"

definition registerHandler :: "JumpHandlerFactory \<Rightarrow> EditorType \<Rightarrow> JumpHandler \<Rightarrow> JumpHandlerFactory" where
  "registerHandler handlers t handler = handlers(t \<mapsto> handler)"

section \<open>The tree view and its commands (editorTreeView.ts)\<close>

text \<open>
  \<open>JETBRAINS_PRESETS\<close>: an editor configuration without its path, \<open>Omit<EditorConfig,
  'path'>\<close>, for each product offered by the add flow.
\<close>

record Preset =
  preset_name :: string
  preset_type :: EditorType
  preset_urlScheme :: "string option"

definition JETBRAINS_PRESETS :: "Preset list" where
  "JETBRAINS_PRESETS =
     [\<lparr>preset_name = ''IntelliJ IDEA'', preset_type = jetbrains, preset_urlScheme = Some ''idea''\<rparr>,
      \<lparr>preset_name = ''WebStorm'', preset_type = jetbrains, preset_urlScheme = Some ''webstorm''\<rparr>,
      \<lparr>preset_name = ''PyCharm'', preset_type = jetbrains, preset_urlScheme = Some ''pycharm''\<rparr>,
      \<lparr>preset_name = ''RustRover'', preset_type = jetbrains, preset_urlScheme = Some ''rustrover''\<rparr>,
      \<lparr>preset_name = ''GoLand'', preset_type = jetbrains, preset_urlScheme = Some ''goland''\<rparr>,
      \<lparr>preset_name = ''CLion'', preset_type = jetbrains, preset_urlScheme = Some ''clion''\<rparr>,
      \<lparr>preset_name = ''PhpStorm'', preset_type = jetbrains, preset_urlScheme = Some ''phpstorm''\<rparr>,
      \<lparr>preset_name = ''Rider'', preset_type = jetbrains, preset_urlScheme = Some ''rider''\<rparr>,
      \<lparr>preset_name = ''DataGrip'', preset_type = jetbrains, preset_urlScheme = Some ''datagrip''\<rparr>,
      \<lparr>preset_name = ''Android Studio'', preset_type = jetbrains, preset_urlScheme = Some ''studio''\<rparr>]"

record EditorTreeItem =
  editor :: EditorConfig
  index :: nat

datatype TreeItem = EditorItem EditorTreeItem | AddEditorTreeItem

definition getChildren :: "Store \<Rightarrow> TreeItem list" where
  "getChildren config =
     map (\<lambda>(i, e). EditorItem \<lparr>editor = e, index = i\<rparr>) (enumerate 0 (getEditors config))
     @ [AddEditorTreeItem]"

text \<open>\<open>config.get('editors') || []\<close>: an array, even an empty one, is truthy.\<close>

definition stored_editors :: "Store \<Rightarrow> EditorConfig list" where
  "stored_editors config = (case editors config of None \<Rightarrow> [] | Some es \<Rightarrow> es)"

text \<open>
  \<open>Array.prototype.splice(start, deleteCount)\<close> with no items to insert, for a start
  that is a position of the tree (never negative): the start is clamped to the length
  and the count to what is left after it.
\<close>

definition splice_arr :: "'a list \<Rightarrow> nat \<Rightarrow> nat \<Rightarrow> 'a list" where
  "splice_arr xs start deleteCount =
     (let actualStart = min start (length xs);
          actualDeleteCount = min deleteCount (length xs - actualStart)
      in take actualStart xs @ drop (actualStart + actualDeleteCount) xs)"

definition saveEditor :: "EditorConfig \<Rightarrow> Store \<Rightarrow> Store" where
  "saveEditor e config = config\<lparr>editors := Some (stored_editors config @ [e])\<rparr>"

definition removeEditor :: "nat \<Rightarrow> Store \<Rightarrow> Store" where
  "removeEditor i config = config\<lparr>editors := Some (splice_arr (stored_editors config) i 1)\<rparr>"

text \<open>
  \<open>deleteEditor\<close>: \<open>confirm\<close> is what the modal warning returned, the label of the button
  pressed or \<open>undefined\<close>.
\<close>

definition deleteEditor :: "EditorTreeItem \<Rightarrow> string option \<Rightarrow> Store \<times> Window \<Rightarrow> Store \<times> Window" where
  "deleteEditor item confirm sw =
     (case sw of (config, w) \<Rightarrow>
        if confirm = Some ''Delete''
        then (removeEditor (index item) config,
              showInformationMessage (''Editor deleted: '' @ name (editor item)) w)
        else (config, w))"

section \<open>The entry point (extension.ts)\<close>

definition noActiveEditor :: string where
  "noActiveEditor = ''No active file! Please open a file first.''"

text \<open>
  \<open>vscode.window.activeTextEditor\<close>: the path of its document and the position of the
  cursor, both counted from zero.
\<close>

record TextEditor =
  document_fsPath :: string
  active_line :: nat
  active_character :: nat

text \<open>
  The handler of \<open>Switch2IDEA.openFileInIDEA\<close> up to its call of \<open>executeJump\<close>: the
  argument is the path of the URI, when there is one. The result is the window and the
  jump context handed to \<open>executeJump\<close>, or \<^term>\<open>None\<close> when the handler returned before.
\<close>

definition openFileInIDEA ::
  "string option \<Rightarrow> TextEditor option \<Rightarrow> Window \<Rightarrow> Window \<times> JumpContext option" where
  "openFileInIDEA uri activeTextEditor w =
     (case uri of
        Some fp \<Rightarrow>
          (case activeTextEditor of
             Some ed \<Rightarrow>
               if document_fsPath ed = fp
               then (w, Some \<lparr>filePath = Some fp, projectPath = None,
                               line = Some (Finite (of_nat (active_line ed) + 1)),
                               column = Some (Finite (of_nat (active_character ed)))\<rparr>)
               else (w, Some \<lparr>filePath = Some fp, projectPath = None,
                               line = Some (Finite 1), column = Some (Finite 0)\<rparr>)
           | None \<Rightarrow> (w, Some \<lparr>filePath = Some fp, projectPath = None,
                                 line = Some (Finite 1), column = Some (Finite 0)\<rparr>))
      | None \<Rightarrow>
          (case activeTextEditor of
             None \<Rightarrow> (showErrorMessage noActiveEditor w, None)
           | Some ed \<Rightarrow>
               (w, Some \<lparr>filePath = Some (document_fsPath ed), projectPath = None,
                          line = Some (Finite (of_nat (active_line ed) + 1)),
                          column = Some (Finite (of_nat (active_character ed)))\<rparr>)))"

section \<open>Example entries\<close>

text \<open>Three stored entries, used where a theorem is applied to a concrete list.\<close>

definition ed_a :: EditorConfig where
  "ed_a = \<lparr>name = ''A'', type = jetbrains, path = ''/a'', urlScheme = None\<rparr>"

definition ed_b :: EditorConfig where
  "ed_b = \<lparr>name = ''B'', type = custom, path = ''/b'', urlScheme = None\<rparr>"

definition ed_c :: EditorConfig where
  "ed_c = \<lparr>name = ''C'', type = jetbrains, path = ''/c'', urlScheme = None\<rparr>"

section \<open>Facts about truthiness and the string functions\<close>

text \<open>
  \<open>includes_str\<close> is containment as a contiguous substring, \<^const>\<open>sublist\<close> of the
  library; the properties below are stated with the latter.
\<close>

lemma truthy_str_iff: "truthy_str x \<longleftrightarrow> (\<exists>s. x = Some s \<and> s \<noteq> [])"
  by (cases x) auto

lemma truthy_num_Some: "truthy_num (Some n) \<longleftrightarrow> n \<noteq> Finite 0 \<and> n \<noteq> NaN"
  by (cases n) simp_all

lemma truthy_num_iff:
  "truthy_num x \<longleftrightarrow> (\<exists>n. x = Some n \<and> n \<noteq> Finite 0 \<and> n \<noteq> NaN)"
  by (cases x) (simp_all add: truthy_num_Some)

lemma take_eq_prefix: "take (length k) s = k \<longleftrightarrow> prefix k s"
  by (metis append_eq_conv_conj prefix_def append_take_drop_id)

lemma includes_str_sublist: "includes_str s k \<longleftrightarrow> sublist k s"
proof (induction s)
  case Nil
  then show ?case by simp
next
  case (Cons c cs)
  then show ?case
    by (simp only: includes_str.simps sublist_Cons_right take_eq_prefix)
qed

lemma show_num_exact:
  "- 9007199254740992 \<le> i \<Longrightarrow> i \<le> 9007199254740992 \<Longrightarrow>
     show_num ns (of_int i) = show_int i"
  by (simp add: show_num_def)

lemma show_num_beyond:
  "q < - 9007199254740992 \<or> 9007199254740992 < q \<or> of_int \<lfloor>q\<rfloor> \<noteq> q \<Longrightarrow> show_num ns q = ns q"
  by (auto simp: show_num_def)

lemma floor_three_halves: "\<lfloor>3 / 2 :: rat\<rfloor> = 1"
  by (simp add: floor_unique)

lemma num_str_examples:
  "num_str ns (Finite 42) = ''42''"
  "num_str ns (Finite (- 7)) = ''-7''"
  "num_str ns (Finite 9007199254740992) = ''9007199254740992''"
  "num_str ns (Finite (2 ^ 60)) = ns (2 ^ 60)"
  "num_str ns (Finite (10 ^ 21)) = ns (10 ^ 21)"
  "num_str ns (Finite (3 / 2)) = ns (3 / 2)"
  "num_str ns NaN = ''NaN''"
  by (simp_all add: show_num_def show_int_def show_nat.simps digit_char_def floor_three_halves)

lemma toLowerCase_Nil_iff [simp]: "toLowerCase n = [] \<longleftrightarrow> n = []"
  by (simp add: toLowerCase_def)

lemma lowered_name:
  "or_else (map_option toLowerCase (Some n)) d = (if n = [] then d else toLowerCase n)"
  by simp

section \<open>The effective editor list\<close>

text \<open>
  C1. \<open>getEditors\<close> is a total function and its result is never empty. A stored list
  that is present and not empty is returned as it is. Failing that, a legacy path that is
  present and not empty gives the single entry IntelliJ IDEA of type jetbrains with that
  path and the scheme idea. Failing both, the result is the single entry IntelliJ IDEA
  of type jetbrains with the empty path and the scheme idea.
\<close>

theorem getEditors_effective:
  "getEditors config \<noteq> []
   \<and> (\<forall>es. editors config = Some es \<and> es \<noteq> [] \<longrightarrow> getEditors config = es)
   \<and> (\<not> (\<exists>es. editors config = Some es \<and> es \<noteq> []) \<longrightarrow>
        (\<forall>p. ideaPath config = Some p \<and> p \<noteq> [] \<longrightarrow>
           getEditors config =
             [\<lparr>name = ''IntelliJ IDEA'', type = jetbrains, path = p, urlScheme = Some ''idea''\<rparr>]))
   \<and> (\<not> (\<exists>es. editors config = Some es \<and> es \<noteq> []) \<and>
       \<not> (\<exists>p. ideaPath config = Some p \<and> p \<noteq> []) \<longrightarrow>
         getEditors config =
           [\<lparr>name = ''IntelliJ IDEA'', type = jetbrains, path = '''', urlScheme = Some ''idea''\<rparr>])"
  by (auto simp: getEditors_def getEditors_legacy_def getDefaultEditors_def split: option.splits)

theorem getEditors_effective_witness:
  "getEditors \<lparr>editors = Some [\<lparr>name = ''WebStorm'', type = jetbrains, path = ''/opt/ws'',
                                 urlScheme = Some ''webstorm''\<rparr>],
               ideaPath = Some ''/opt/idea''\<rparr>
     = [\<lparr>name = ''WebStorm'', type = jetbrains, path = ''/opt/ws'', urlScheme = Some ''webstorm''\<rparr>]
   \<and> getEditors \<lparr>editors = Some [], ideaPath = Some ''/opt/idea''\<rparr>
     = [\<lparr>name = ''IntelliJ IDEA'', type = jetbrains, path = ''/opt/idea'', urlScheme = Some ''idea''\<rparr>]
   \<and> getEditors \<lparr>editors = None, ideaPath = Some ''''\<rparr>
     = [\<lparr>name = ''IntelliJ IDEA'', type = jetbrains, path = '''', urlScheme = Some ''idea''\<rparr>]"
  using
    getEditors_effective [of "\<lparr>editors = Some [\<lparr>name = ''WebStorm'', type = jetbrains,
      path = ''/opt/ws'', urlScheme = Some ''webstorm''\<rparr>], ideaPath = Some ''/opt/idea''\<rparr>"]
    getEditors_effective [of "\<lparr>editors = Some [], ideaPath = Some ''/opt/idea''\<rparr>"]
    getEditors_effective [of "\<lparr>editors = None, ideaPath = Some ''''\<rparr>"]
  by simp

section \<open>The URL command of macOS\<close>

text \<open>
  C2. For a jump context with a file path (a path is not the empty string),
  \<open>buildMacCommand\<close> returns \<open>open -a "<app path>" "<url>"\<close> where the URL is
  \<open><scheme>://open?file=<url-encoded file path>\<close>, the scheme being the configured one or
  "idea" by default, followed by \<open>&line=<line>\<close> when a line is present, a falsy line (0
  or NaN) being treated as absent, and then by \<open>&column=<column>\<close> when a column is
  present. For line 42, no column and the scheme pycharm the URL is
  \<open>pycharm://open?file=<encoded path>&line=42\<close>, with no column part. On the platform
  darwin \<open>buildCommand\<close> is this builder, applied to the configured path or, when that is
  empty, to the default path.
\<close>

theorem buildMacCommand_file_url:
  \<open>(filePath context = Some fp \<and> fp \<noteq> [] \<longrightarrow>
      buildMacCommand ns config context appPath =
        Inr (''open -a "'' @ appPath @ ''" "''
             @ (case urlScheme config of None \<Rightarrow> ''idea''
                | Some s \<Rightarrow> if s = [] then ''idea'' else s)
             @ ''://open?file='' @ encodeURIComponent fp
             @ (case line context of None \<Rightarrow> []
                | Some l \<Rightarrow> if l = Finite 0 \<or> l = NaN then [] else ''&line='' @ num_str ns l)
             @ (case column context of None \<Rightarrow> []
                | Some c \<Rightarrow> ''&column='' @ num_str ns c)
             @ ''"''))
   \<and> (filePath context = Some fp \<and> fp \<noteq> [] \<and> line context = Some (Finite 42)
        \<and> column context = None \<and> urlScheme config = Some ''pycharm'' \<longrightarrow>
      buildMacCommand ns config context appPath =
        Inr (''open -a "'' @ appPath @ ''" "pycharm://open?file='' @ encodeURIComponent fp
             @ ''&line=42"''))
   \<and> (os_platform host = ''darwin'' \<longrightarrow>
      buildCommand ns host config context =
        buildMacCommand ns config context
          (if path config = [] then getDefaultPath host ''darwin'' (Some (name config))
           else path config))\<close>
proof -
  have s: "or_else (urlScheme config) ''idea''
             = (case urlScheme config of None \<Rightarrow> ''idea'' | Some s \<Rightarrow> if s = [] then ''idea'' else s)"
    by (cases "urlScheme config") simp_all
  have l: "(if truthy_num (line context) then ''&line='' @ tpl_num ns (line context) else [])
             = (case line context of None \<Rightarrow> []
                | Some l \<Rightarrow> if l = Finite 0 \<or> l = NaN then [] else ''&line='' @ num_str ns l)"
    by (cases "line context") (simp_all add: truthy_num_Some)
  have c: "(if column context \<noteq> None then ''&column='' @ tpl_num ns (column context) else [])
             = (case column context of None \<Rightarrow> [] | Some c \<Rightarrow> ''&column='' @ num_str ns c)"
    by (cases "column context") simp_all
  have n42: "show_num ns 42 = ''42''"
    by (simp add: show_num_def show_int_def show_nat.simps digit_char_def)
  have gen: "filePath context = Some fp \<and> fp \<noteq> [] \<longrightarrow>
      buildMacCommand ns config context appPath =
        Inr (''open -a '' @ [CHR 0x22] @ appPath @ [CHR 0x22] @ '' '' @ [CHR 0x22]
             @ (case urlScheme config of None \<Rightarrow> ''idea''
                | Some s \<Rightarrow> if s = [] then ''idea'' else s)
             @ ''://open?file='' @ encodeURIComponent fp
             @ (case line context of None \<Rightarrow> []
                | Some l \<Rightarrow> if l = Finite 0 \<or> l = NaN then [] else ''&line='' @ num_str ns l)
             @ (case column context of None \<Rightarrow> []
                | Some c \<Rightarrow> ''&column='' @ num_str ns c)
             @ [CHR 0x22])"
    unfolding buildMacCommand_def s l c by (simp add: Let_def)
  have plat: "os_platform host = ''darwin'' \<longrightarrow>
      buildCommand ns host config context =
        buildMacCommand ns config context
          (if path config = [] then getDefaultPath host ''darwin'' (Some (name config))
           else path config)"
    by (simp add: buildCommand_def Let_def)
  from gen plat show ?thesis
    by (auto simp: n42)
qed

theorem buildMacCommand_file_url_witness:
  \<open>buildCommand (\<lambda>i. ''1e+21'') \<lparr>os_platform = ''darwin'', env_LOCALAPPDATA = None, os_homedir = ''/Users/u''\<rparr>
      \<lparr>name = ''PyCharm'', type = jetbrains, path = [], urlScheme = Some ''pycharm''\<rparr>
      \<lparr>filePath = Some ''/w/a b.ts'', projectPath = None, line = Some (Finite 42), column = None\<rparr>
     = Inr ''open -a "PyCharm" "pycharm://open?file=%2Fw%2Fa%20b.ts&line=42"''\<close>
proof -
  let ?host = "\<lparr>os_platform = ''darwin'', env_LOCALAPPDATA = None, os_homedir = ''/Users/u''\<rparr>"
  let ?config = "\<lparr>name = ''PyCharm'', type = jetbrains, path = [], urlScheme = Some ''pycharm''\<rparr>"
  let ?ctx = "\<lparr>filePath = Some ''/w/a b.ts'', projectPath = None, line = Some (Finite 42), column = None\<rparr>"
  have app: "getDefaultPath ?host ''darwin'' (Some ''PyCharm'') = ''PyCharm''"
    by (simp add: getDefaultPath_def appNameMap_def toLowerCase_def lower_char_def)
  have enc: "encodeURIComponent ''/w/a b.ts'' = ''%2Fw%2Fa%20b.ts''"
    by (simp add: encodeURIComponent_def encode_byte_def uri_unreserved_def hex_digit_def)
  have n42: "show_num (\<lambda>i. ''1e+21'') 42 = ''42''"
    by (simp add: show_num_def show_int_def show_nat.simps digit_char_def)
  from buildMacCommand_file_url
    [of ?ctx "''/w/a b.ts''" "\<lambda>i. ''1e+21''" ?config "''PyCharm''" ?host]
  show ?thesis
    by (simp add: app enc n42)
qed

section \<open>The presence tests of line and column\<close>

text \<open>
  C3. For a jump context with a file path (a path is not the empty string), both builders
  include the line part (\<open>--line\<close>, \<open>&line=\<close>) exactly when the line is truthy, so a line
  of 0 (or NaN) is left out as an absent one is, and the column part (\<open>--column\<close>, \<open>&column=\<close>)
  exactly when the column is not undefined, so a column of 0 is included. With column 5
  and no line the command-line builder returns \<open>"<exe>" --column 5 "<file>"\<close>, with no
  line flag. Off darwin \<open>buildCommand\<close> is the command-line builder, applied to the
  configured path or, when that is empty, to the default path.
\<close>

theorem line_column_asymmetry:
  \<open>(filePath context = Some fp \<and> fp \<noteq> [] \<longrightarrow>
      buildCliCommand ns context execPath =
        Inr (''"'' @ execPath @ ''"''
             @ (case line context of None \<Rightarrow> []
                | Some l \<Rightarrow> if l = Finite 0 \<or> l = NaN then [] else '' --line '' @ num_str ns l)
             @ (case column context of None \<Rightarrow> []
                | Some c \<Rightarrow> '' --column '' @ num_str ns c)
             @ '' "'' @ fp @ ''"'')
      \<and> buildMacCommand ns config context appPath =
        Inr (''open -a "'' @ appPath @ ''" "'' @ or_else (urlScheme config) ''idea''
             @ ''://open?file='' @ encodeURIComponent fp
             @ (case line context of None \<Rightarrow> []
                | Some l \<Rightarrow> if l = Finite 0 \<or> l = NaN then [] else ''&line='' @ num_str ns l)
             @ (case column context of None \<Rightarrow> []
                | Some c \<Rightarrow> ''&column='' @ num_str ns c)
             @ ''"''))
   \<and> (filePath context = Some fp \<and> fp \<noteq> [] \<and> line context = None
        \<and> column context = Some (Finite 5) \<longrightarrow>
      buildCliCommand ns context execPath = Inr (''"'' @ execPath @ ''" --column 5 "'' @ fp @ ''"''))
   \<and> (filePath context = Some fp \<and> fp \<noteq> [] \<and> line context = Some (Finite 0)
        \<and> column context = Some (Finite 0) \<longrightarrow>
      buildCliCommand ns context execPath = Inr (''"'' @ execPath @ ''" --column 0 "'' @ fp @ ''"'')
      \<and> buildMacCommand ns config context appPath =
        Inr (''open -a "'' @ appPath @ ''" "'' @ or_else (urlScheme config) ''idea''
             @ ''://open?file='' @ encodeURIComponent fp @ ''&column=0"''))
   \<and> (os_platform host \<noteq> ''darwin'' \<longrightarrow>
      buildCommand ns host config context =
        buildCliCommand ns context
          (if path config = [] then getDefaultPath host (os_platform host) (Some (name config))
           else path config))\<close>
proof -
  have l: "(if truthy_num (line context) then pre @ tpl_num ns (line context) else [])
             = (case line context of None \<Rightarrow> []
                | Some l \<Rightarrow> if l = Finite 0 \<or> l = NaN then [] else pre @ num_str ns l)" for pre
    by (cases "line context") (simp_all add: truthy_num_Some)
  have c: "(if column context \<noteq> None then pre @ tpl_num ns (column context) else [])
             = (case column context of None \<Rightarrow> [] | Some c \<Rightarrow> pre @ num_str ns c)" for pre
    by (cases "column context") simp_all
  have n5: "show_num ns 5 = ''5''" and n0: "show_num ns 0 = ''0''"
    by (simp_all add: show_num_def show_int_def show_nat.simps digit_char_def)
  have cli: "filePath context = Some fp \<and> fp \<noteq> [] \<longrightarrow>
      buildCliCommand ns context execPath =
        Inr ([CHR 0x22] @ execPath @ [CHR 0x22]
             @ (case line context of None \<Rightarrow> []
                | Some l \<Rightarrow> if l = Finite 0 \<or> l = NaN then [] else '' --line '' @ num_str ns l)
             @ (case column context of None \<Rightarrow> []
                | Some c \<Rightarrow> '' --column '' @ num_str ns c)
             @ '' '' @ [CHR 0x22] @ fp @ [CHR 0x22])"
    unfolding buildCliCommand_def l c by simp
  have mac: "filePath context = Some fp \<and> fp \<noteq> [] \<longrightarrow>
      buildMacCommand ns config context appPath =
        Inr (''open -a '' @ [CHR 0x22] @ appPath @ [CHR 0x22] @ '' '' @ [CHR 0x22]
             @ or_else (urlScheme config) ''idea''
             @ ''://open?file='' @ encodeURIComponent fp
             @ (case line context of None \<Rightarrow> []
                | Some l \<Rightarrow> if l = Finite 0 \<or> l = NaN then [] else ''&line='' @ num_str ns l)
             @ (case column context of None \<Rightarrow> []
                | Some c \<Rightarrow> ''&column='' @ num_str ns c)
             @ [CHR 0x22])"
    unfolding buildMacCommand_def l c by (simp add: Let_def)
  have plat: "os_platform host \<noteq> ''darwin'' \<longrightarrow>
      buildCommand ns host config context =
        buildCliCommand ns context
          (if path config = [] then getDefaultPath host (os_platform host) (Some (name config))
           else path config)"
    by (simp add: buildCommand_def Let_def)
  from cli mac plat show ?thesis
    by (auto simp: n5 n0)
qed

theorem line_column_asymmetry_witness:
  \<open>buildCommand (\<lambda>i. ''1e+21'') \<lparr>os_platform = ''linux'', env_LOCALAPPDATA = None, os_homedir = ''/home/u''\<rparr>
      \<lparr>name = ''IntelliJ IDEA'', type = jetbrains, path = ''/opt/idea/bin/idea.sh'',
       urlScheme = Some ''idea''\<rparr>
      \<lparr>filePath = Some ''/w/a.ts'', projectPath = None, line = None, column = Some (Finite 5)\<rparr>
     = Inr ''"/opt/idea/bin/idea.sh" --column 5 "/w/a.ts"''
   \<and> buildCliCommand (\<lambda>i. ''1e+21'')
      \<lparr>filePath = Some ''/w/a.ts'', projectPath = None, line = Some (Finite 0), column = Some (Finite 0)\<rparr>
      ''/opt/idea/bin/idea.sh''
     = Inr ''"/opt/idea/bin/idea.sh" --column 0 "/w/a.ts"''
   \<and> buildMacCommand (\<lambda>i. ''1e+21'')
      \<lparr>name = ''IntelliJ IDEA'', type = jetbrains, path = ''/opt/idea/bin/idea.sh'',
       urlScheme = Some ''idea''\<rparr>
      \<lparr>filePath = Some ''/w/a.ts'', projectPath = None, line = Some (Finite 0), column = Some (Finite 0)\<rparr>
      ''IntelliJ IDEA''
     = Inr ''open -a "IntelliJ IDEA" "idea://open?file=%2Fw%2Fa.ts&column=0"''\<close>
proof -
  let ?host = "\<lparr>os_platform = ''linux'', env_LOCALAPPDATA = None, os_homedir = ''/home/u''\<rparr>"
  let ?config = "\<lparr>name = ''IntelliJ IDEA'', type = jetbrains, path = ''/opt/idea/bin/idea.sh'',
                 urlScheme = Some ''idea''\<rparr>"
  have enc: "encodeURIComponent ''/w/a.ts'' = ''%2Fw%2Fa.ts''"
    by (simp add: encodeURIComponent_def encode_byte_def uri_unreserved_def hex_digit_def)
  from
    line_column_asymmetry
      [of "\<lparr>filePath = Some ''/w/a.ts'', projectPath = None, line = None, column = Some (Finite 5)\<rparr>"
          "''/w/a.ts''" "\<lambda>i. ''1e+21''" "''/opt/idea/bin/idea.sh''" ?config "''IntelliJ IDEA''"
          ?host]
    line_column_asymmetry
      [of "\<lparr>filePath = Some ''/w/a.ts'', projectPath = None, line = Some (Finite 0), column = Some (Finite 0)\<rparr>"
          "''/w/a.ts''" "\<lambda>i. ''1e+21''" "''/opt/idea/bin/idea.sh''" ?config "''IntelliJ IDEA''"
          ?host]
  show ?thesis
    by (simp add: enc show_num_def show_int_def show_nat.simps digit_char_def)
qed

section \<open>Command construction without a target\<close>

text \<open>
  C4. When neither a file path nor a project path is present in the jump context (each
  is undefined; the same holds when it is the empty string), the macOS builder, the
  command-line builder and \<open>buildCommand\<close> on any platform all throw the error with the
  message "No file or project path provided!", and none of them returns a command.
\<close>

theorem build_without_target_fails:
  "(filePath context = None \<or> filePath context = Some '''') \<and>
   (projectPath context = None \<or> projectPath context = Some '''') \<longrightarrow>
     buildMacCommand ns config context appPath = Inl ''No file or project path provided!''
     \<and> buildCliCommand ns context execPath = Inl ''No file or project path provided!''
     \<and> buildCommand ns host config context = Inl ''No file or project path provided!''
     \<and> (\<forall>cmd. buildMacCommand ns config context appPath \<noteq> Inr cmd
              \<and> buildCliCommand ns context execPath \<noteq> Inr cmd
              \<and> buildCommand ns host config context \<noteq> Inr cmd)"
  by (auto simp: buildMacCommand_def buildCliCommand_def buildCommand_def noFileOrProject_def
      Let_def truthy_str_iff)

theorem build_without_target_fails_witness:
  "buildMacCommand (\<lambda>i. ''1e+21'')
      \<lparr>name = ''PyCharm'', type = jetbrains, path = '''', urlScheme = Some ''pycharm''\<rparr>
      \<lparr>filePath = None, projectPath = None, line = Some (Finite 3), column = Some (Finite 0)\<rparr> ''PyCharm''
     = Inl ''No file or project path provided!''
   \<and> buildCliCommand (\<lambda>i. ''1e+21'')
      \<lparr>filePath = None, projectPath = None, line = Some (Finite 3), column = Some (Finite 0)\<rparr> ''/opt/pycharm''
     = Inl ''No file or project path provided!''
   \<and> buildCommand (\<lambda>i. ''1e+21'')
      \<lparr>os_platform = ''linux'', env_LOCALAPPDATA = None, os_homedir = ''/home/u''\<rparr>
      \<lparr>name = ''PyCharm'', type = jetbrains, path = '''', urlScheme = Some ''pycharm''\<rparr>
      \<lparr>filePath = None, projectPath = None, line = Some (Finite 3), column = Some (Finite 0)\<rparr>
     = Inl ''No file or project path provided!''"
  using build_without_target_fails
    [of "\<lparr>filePath = None, projectPath = None, line = Some (Finite 3), column = Some (Finite 0)\<rparr>"
        "\<lambda>i. ''1e+21''"
        "\<lparr>name = ''PyCharm'', type = jetbrains, path = '''', urlScheme = Some ''pycharm''\<rparr>"
        "''PyCharm''" "''/opt/pycharm''"
        "\<lparr>os_platform = ''linux'', env_LOCALAPPDATA = None, os_homedir = ''/home/u''\<rparr>"]
  by simp

section \<open>Default paths\<close>

lemma find_app_first:
  "i < length tbl \<Longrightarrow> includes_str nm (fst (tbl ! i)) \<Longrightarrow>
   \<forall>j<i. \<not> includes_str nm (fst (tbl ! j)) \<Longrightarrow> find_app nm tbl d = snd (tbl ! i)"
proof (induction tbl arbitrary: i)
  case Nil
  then show ?case by simp
next
  case (Cons kv tbl)
  obtain key val where kv: "kv = (key, val)" by (cases kv)
  show ?case
  proof (cases i)
    case 0
    with Cons.prems kv show ?thesis by simp
  next
    case (Suc i')
    with Cons.prems have "\<not> includes_str nm key"
      using kv by (metis fst_conv nth_Cons_0 zero_less_Suc)
    moreover have "find_app nm tbl d = snd (tbl ! i')"
    proof (rule Cons.IH)
      show "i' < length tbl" using Cons.prems(1) Suc by simp
      show "includes_str nm (fst (tbl ! i'))" using Cons.prems(2) Suc by simp
      show "\<forall>j<i'. \<not> includes_str nm (fst (tbl ! j))"
      proof (intro allI impI)
        fix j assume "j < i'"
        then have "Suc j < i" using Suc by simp
        with Cons.prems(3) have "\<not> includes_str nm (fst ((kv # tbl) ! Suc j))" by blast
        then show "\<not> includes_str nm (fst (tbl ! j))" by simp
      qed
    qed
    ultimately show ?thesis using kv Suc by simp
  qed
qed

lemma find_app_none:
  "\<forall>i<length tbl. \<not> includes_str nm (fst (tbl ! i)) \<Longrightarrow> find_app nm tbl d = d"
proof (induction tbl)
  case Nil
  then show ?case by simp
next
  case (Cons kv tbl)
  obtain key val where kv: "kv = (key, val)" by (cases kv)
  from Cons.prems have "\<not> includes_str nm (fst ((kv # tbl) ! 0))" by blast
  then have k: "\<not> includes_str nm key" using kv by simp
  have "\<forall>i<length tbl. \<not> includes_str nm (fst (tbl ! i))"
  proof (intro allI impI)
    fix i assume "i < length tbl"
    then have "Suc i < length (kv # tbl)" by simp
    with Cons.prems have "\<not> includes_str nm (fst ((kv # tbl) ! Suc i))" by blast
    then show "\<not> includes_str nm (fst (tbl ! i))" by simp
  qed
  with Cons.IH k kv show ?case by simp
qed

lemma appNameMap_slugs_all:
  "list_all (\<lambda>kv. win (snd kv) = replace_first (win (snd kv)) ''64.exe'' [] @ ''64.exe''
                   \<and> linux (snd kv) = replace_first (linux (snd kv)) ''.sh'' [] @ ''.sh'')
     appNameMap"
  by (simp add: appNameMap_def idea_info_def)

lemma appNameMap_slugs:
  "i < length appNameMap \<Longrightarrow>
     win (snd (appNameMap ! i)) = replace_first (win (snd (appNameMap ! i))) ''64.exe'' [] @ ''64.exe''
     \<and> linux (snd (appNameMap ! i)) = replace_first (linux (snd (appNameMap ! i))) ''.sh'' [] @ ''.sh''"
  using appNameMap_slugs_all by (simp add: list_all_length)

lemma keys_nonempty: "i < length appNameMap \<Longrightarrow> fst (appNameMap ! i) \<noteq> []"
proof -
  have "list_all (\<lambda>kv. fst kv \<noteq> []) appNameMap"
    by (simp add: appNameMap_def)
  then show "i < length appNameMap \<Longrightarrow> fst (appNameMap ! i) \<noteq> []"
    by (simp add: list_all_length)
qed

lemma getDefaultPath_first_match:
  assumes i: "i < length appNameMap"
    and hit: "sublist (fst (appNameMap ! i)) (toLowerCase n)"
    and first: "\<forall>j<i. \<not> sublist (fst (appNameMap ! j)) (toLowerCase n)"
  shows "\<exists>sw sl. win (snd (appNameMap ! i)) = sw @ ''64.exe''
           \<and> linux (snd (appNameMap ! i)) = sl @ ''.sh''
           \<and> getDefaultPath host ''darwin'' (Some n) = mac (snd (appNameMap ! i))
           \<and> getDefaultPath host ''win32'' (Some n) =
                 tpl_str (env_LOCALAPPDATA host) @ [CHR 0x5C] @ ''JetBrains'' @ [CHR 0x5C]
                 @ ''Toolbox'' @ [CHR 0x5C] @ ''scripts'' @ [CHR 0x5C] @ sw
           \<and> getDefaultPath host ''linux'' (Some n) =
                 os_homedir host @ ''/.local/share/JetBrains/Toolbox/scripts/'' @ sl"
proof -
  have ne: "n \<noteq> []"
  proof
    assume "n = []"
    with hit have "fst (appNameMap ! i) = []" by (simp add: toLowerCase_def)
    with keys_nonempty [OF i] show False by simp
  qed
  have app: "find_app (toLowerCase n) appNameMap idea_info = snd (appNameMap ! i)"
    using i hit first by (intro find_app_first) (simp_all add: includes_str_sublist)
  let ?a = "snd (appNameMap ! i)"
  have "win ?a = replace_first (win ?a) ''64.exe'' [] @ ''64.exe''"
    and "linux ?a = replace_first (linux ?a) ''.sh'' [] @ ''.sh''"
    using appNameMap_slugs [OF i] by simp_all
  moreover have "getDefaultPath host ''darwin'' (Some n) = mac ?a"
    by (simp add: getDefaultPath_def ne app)
  moreover have "getDefaultPath host ''win32'' (Some n) =
                 tpl_str (env_LOCALAPPDATA host) @ [CHR 0x5C] @ ''JetBrains'' @ [CHR 0x5C]
                 @ ''Toolbox'' @ [CHR 0x5C] @ ''scripts'' @ [CHR 0x5C]
                 @ replace_first (win ?a) ''64.exe'' []"
    by (simp add: getDefaultPath_def ne app backslash_def)
  moreover have "getDefaultPath host ''linux'' (Some n) =
                 os_homedir host @ ''/.local/share/JetBrains/Toolbox/scripts/''
                 @ replace_first (linux ?a) ''.sh'' []"
    by (simp add: getDefaultPath_def ne app)
  ultimately show ?thesis by blast
qed

lemma getDefaultPath_no_match:
  assumes none: "\<forall>i<length appNameMap. \<not> sublist (fst (appNameMap ! i)) (toLowerCase n)"
  shows "getDefaultPath host ''darwin'' (Some n) = ''IntelliJ IDEA''
         \<and> getDefaultPath host ''win32'' (Some n) =
               tpl_str (env_LOCALAPPDATA host) @ [CHR 0x5C] @ ''JetBrains'' @ [CHR 0x5C]
               @ ''Toolbox'' @ [CHR 0x5C] @ ''scripts'' @ [CHR 0x5C] @ ''idea''
         \<and> getDefaultPath host ''linux'' (Some n) =
               os_homedir host @ ''/.local/share/JetBrains/Toolbox/scripts/idea''"
proof -
  have idea: "find_app ''intellij idea'' appNameMap idea_info = idea_info"
    by (simp add: appNameMap_def)
  have "find_app (toLowerCase n) appNameMap idea_info = idea_info"
    using none by (intro find_app_none) (simp add: includes_str_sublist)
  with idea have
    "find_app (if n = [] then ''intellij idea'' else toLowerCase n) appNameMap idea_info
       = idea_info"
    by simp
  then show ?thesis
    by (simp add: getDefaultPath_def idea_info_def backslash_def lowered_name [simplified])
qed

lemma rustrover_no_match:
  "\<forall>i<length appNameMap. \<not> sublist (fst (appNameMap ! i)) (toLowerCase ''RustRover'')"
proof -
  have "list_all (\<lambda>kv. \<not> includes_str (toLowerCase ''RustRover'') (fst kv)) appNameMap"
    by (simp add: appNameMap_def toLowerCase_def lower_char_def)
  then show ?thesis
    by (simp add: list_all_length includes_str_sublist)
qed

text \<open>
  C5. \<open>getDefaultPath\<close> lower-cases the name and takes the entry of the first key of the
  table, in table order, that the lowered name contains; when it contains none, as for
  RustRover, a name of the preset list, it takes the entry of IntelliJ IDEA, the first
  of the table. The path is the mac application name on darwin. On win32 it is the value
  of LOCALAPPDATA followed by the directories JetBrains, Toolbox and scripts and by the
  slug, each after a backslash, the slug being the exe name of the entry without its
  ending "64.exe". On linux it is the home directory followed by
  \<open>/.local/share/JetBrains/Toolbox/scripts/\<close> and the slug, here the script name without
  its ending ".sh".
\<close>

theorem getDefaultPath_resolution:
  "(\<forall>i. i < length appNameMap \<and> sublist (fst (appNameMap ! i)) (toLowerCase n)
          \<and> (\<forall>j<i. \<not> sublist (fst (appNameMap ! j)) (toLowerCase n)) \<longrightarrow>
      (\<exists>sw sl. win (snd (appNameMap ! i)) = sw @ ''64.exe''
           \<and> linux (snd (appNameMap ! i)) = sl @ ''.sh''
           \<and> getDefaultPath host ''darwin'' (Some n) = mac (snd (appNameMap ! i))
           \<and> getDefaultPath host ''win32'' (Some n) =
                 tpl_str (env_LOCALAPPDATA host) @ [CHR 0x5C] @ ''JetBrains'' @ [CHR 0x5C]
                 @ ''Toolbox'' @ [CHR 0x5C] @ ''scripts'' @ [CHR 0x5C] @ sw
           \<and> getDefaultPath host ''linux'' (Some n) =
                 os_homedir host @ ''/.local/share/JetBrains/Toolbox/scripts/'' @ sl))
   \<and> ((\<forall>i<length appNameMap. \<not> sublist (fst (appNameMap ! i)) (toLowerCase n)) \<longrightarrow>
         getDefaultPath host ''darwin'' (Some n) = ''IntelliJ IDEA''
         \<and> getDefaultPath host ''win32'' (Some n) =
               tpl_str (env_LOCALAPPDATA host) @ [CHR 0x5C] @ ''JetBrains'' @ [CHR 0x5C]
               @ ''Toolbox'' @ [CHR 0x5C] @ ''scripts'' @ [CHR 0x5C] @ ''idea''
         \<and> getDefaultPath host ''linux'' (Some n) =
               os_homedir host @ ''/.local/share/JetBrains/Toolbox/scripts/idea'')
   \<and> (\<forall>i<length appNameMap. \<not> sublist (fst (appNameMap ! i)) (toLowerCase ''RustRover''))
   \<and> getDefaultPath host ''darwin'' (Some ''RustRover'') = ''IntelliJ IDEA''
   \<and> getDefaultPath host ''win32'' (Some ''RustRover'') =
         tpl_str (env_LOCALAPPDATA host) @ [CHR 0x5C] @ ''JetBrains'' @ [CHR 0x5C]
         @ ''Toolbox'' @ [CHR 0x5C] @ ''scripts'' @ [CHR 0x5C] @ ''idea''
   \<and> getDefaultPath host ''linux'' (Some ''RustRover'') =
         os_homedir host @ ''/.local/share/JetBrains/Toolbox/scripts/idea''
   \<and> map fst appNameMap =
         [''intellij idea'', ''webstorm'', ''pycharm'', ''goland'', ''phpstorm'', ''rider'',
          ''clion'', ''rubymine'', ''datagrip'', ''android studio'']
   \<and> appNameMap ! 0 =
         (''intellij idea'', \<lparr>mac = ''IntelliJ IDEA'', win = ''idea64.exe'', linux = ''idea.sh''\<rparr>)
   \<and> ''RustRover'' \<in> set (map preset_name JETBRAINS_PRESETS)"
proof -
  have preset: "''RustRover'' \<in> set (map preset_name JETBRAINS_PRESETS)"
    by (simp add: JETBRAINS_PRESETS_def)
  have keys: "map fst appNameMap =
         [''intellij idea'', ''webstorm'', ''pycharm'', ''goland'', ''phpstorm'', ''rider'',
          ''clion'', ''rubymine'', ''datagrip'', ''android studio'']"
    by (simp add: appNameMap_def)
  have first: "appNameMap ! 0 =
         (''intellij idea'', \<lparr>mac = ''IntelliJ IDEA'', win = ''idea64.exe'', linux = ''idea.sh''\<rparr>)"
    by (simp add: appNameMap_def idea_info_def)
  show ?thesis
    using getDefaultPath_first_match [of _ n host] getDefaultPath_no_match [of n host]
      getDefaultPath_no_match [OF rustrover_no_match, of host] rustrover_no_match keys first
      preset
    by blast
qed

theorem getDefaultPath_resolution_witness:
  "getDefaultPath \<lparr>os_platform = ''win32'', env_LOCALAPPDATA = Some ''C:/Users/u/AppData/Local'',
                    os_homedir = ''/home/u''\<rparr> ''darwin'' (Some ''My WebStorm'') = ''WebStorm''
   \<and> getDefaultPath \<lparr>os_platform = ''win32'', env_LOCALAPPDATA = Some ''C:/Users/u/AppData/Local'',
                    os_homedir = ''/home/u''\<rparr> ''win32'' (Some ''My WebStorm'')
       = ''C:/Users/u/AppData/Local'' @ [CHR 0x5C] @ ''JetBrains'' @ [CHR 0x5C]
         @ ''Toolbox'' @ [CHR 0x5C] @ ''scripts'' @ [CHR 0x5C] @ ''webstorm''
   \<and> getDefaultPath \<lparr>os_platform = ''win32'', env_LOCALAPPDATA = Some ''C:/Users/u/AppData/Local'',
                    os_homedir = ''/home/u''\<rparr> ''linux'' (Some ''My WebStorm'')
       = ''/home/u/.local/share/JetBrains/Toolbox/scripts/webstorm''
   \<and> getDefaultPath \<lparr>os_platform = ''win32'', env_LOCALAPPDATA = Some ''C:/Users/u/AppData/Local'',
                    os_homedir = ''/home/u''\<rparr> ''linux'' (Some ''Sublime Text'')
       = ''/home/u/.local/share/JetBrains/Toolbox/scripts/idea''"
proof -
  let ?h = "\<lparr>os_platform = ''win32'', env_LOCALAPPDATA = Some ''C:/Users/u/AppData/Local'',
             os_homedir = ''/home/u''\<rparr>"
  have len: "(1::nat) < length appNameMap"
    by (simp add: appNameMap_def)
  have hit: "sublist (fst (appNameMap ! 1)) (toLowerCase ''My WebStorm'')"
    by (simp add: includes_str_sublist [symmetric] appNameMap_def toLowerCase_def lower_char_def)
  have before: "\<forall>j<1. \<not> sublist (fst (appNameMap ! j)) (toLowerCase ''My WebStorm'')"
    by (simp add: includes_str_sublist [symmetric] appNameMap_def toLowerCase_def lower_char_def)
  have none: "\<forall>i<length appNameMap. \<not> sublist (fst (appNameMap ! i)) (toLowerCase ''Sublime Text'')"
  proof -
    have "list_all (\<lambda>kv. \<not> includes_str (toLowerCase ''Sublime Text'') (fst kv)) appNameMap"
      by (simp add: appNameMap_def toLowerCase_def lower_char_def)
    then show ?thesis
      by (simp add: list_all_length includes_str_sublist)
  qed
  from getDefaultPath_resolution [of "''My WebStorm''" ?h] len hit before
  obtain sw sl where
    sw: "win (snd (appNameMap ! 1)) = sw @ ''64.exe''" and
    sl: "linux (snd (appNameMap ! 1)) = sl @ ''.sh''" and
    d: "getDefaultPath ?h ''darwin'' (Some ''My WebStorm'') = mac (snd (appNameMap ! 1))" and
    w: "getDefaultPath ?h ''win32'' (Some ''My WebStorm'') =
          tpl_str (env_LOCALAPPDATA ?h) @ [CHR 0x5C] @ ''JetBrains'' @ [CHR 0x5C]
          @ ''Toolbox'' @ [CHR 0x5C] @ ''scripts'' @ [CHR 0x5C] @ sw" and
    l: "getDefaultPath ?h ''linux'' (Some ''My WebStorm'') =
          os_homedir ?h @ ''/.local/share/JetBrains/Toolbox/scripts/'' @ sl"
    by blast
  have "sw @ ''64.exe'' = ''webstorm'' @ ''64.exe''"
    using sw by (simp add: appNameMap_def)
  then have sw': "sw = ''webstorm''"
    by (simp only: append_same_eq)
  have "sl @ ''.sh'' = ''webstorm'' @ ''.sh''"
    using sl by (simp add: appNameMap_def)
  then have sl': "sl = ''webstorm''"
    by (simp only: append_same_eq)
  have m: "mac (snd (appNameMap ! 1)) = ''WebStorm''"
    by (simp add: appNameMap_def)
  from getDefaultPath_resolution [of "''Sublime Text''" ?h] none
  have fallback: "getDefaultPath ?h ''linux'' (Some ''Sublime Text'')
                    = os_homedir ?h @ ''/.local/share/JetBrains/Toolbox/scripts/idea''"
    by blast
  show ?thesis
    using d w l fallback m by (simp add: sw' sl')
qed

section \<open>Failures of the child process\<close>

lemma messages_differ:
  "editorNotFound nm p \<noteq> executionFailed nm' err"
  "executionFailed nm' err \<noteq> editorNotFound nm p"
  by (simp_all add: editorNotFound_def executionFailed_def)

text \<open>
  C6. When the child process fails, \<open>executeCommand\<close> reports "Cannot launch ... not found"
  exactly when the message of the error contains "ENOENT", "not found" or the localized
  phrase, or its code is 127; the message then names the editor and the path tried, the
  configured one or, when that is empty, the default path computed anew. Every other
  failure is reported as "Failed to launch" with the name of the editor and the text of
  the error. In both cases the message is shown as an error notification and is what the
  promise rejects with, and \<open>jump\<close> rejects with it too.
\<close>

theorem executeCommand_failure:
  "executeCommand host config (Some e) w =
     (if sublist ''ENOENT'' (message e) \<or> sublist ''not found'' (message e)
         \<or> sublist not_found_zh (message e) \<or> code e = Some 127
      then (w\<lparr>shownErrors := shownErrors w @
                [editorNotFound (name config)
                   (if path config \<noteq> [] then path config
                    else getDefaultPath host (os_platform host) (Some (name config)))]\<rparr>,
            Inl (editorNotFound (name config)
                   (if path config \<noteq> [] then path config
                    else getDefaultPath host (os_platform host) (Some (name config)))))
      else (w\<lparr>shownErrors := shownErrors w @ [executionFailed (name config) (message e)]\<rparr>,
            Inl (executionFailed (name config) (message e))))
   \<and> ((\<exists>p. snd (executeCommand host config (Some e) w) = Inl (editorNotFound (name config) p))
        \<longleftrightarrow> (sublist ''ENOENT'' (message e) \<or> sublist ''not found'' (message e)
              \<or> sublist not_found_zh (message e) \<or> code e = Some 127))
   \<and> (buildCommand ns host config context = Inr command \<and> run command = Some e \<longrightarrow>
        jump ns run host config context w = executeCommand host config (Some e) w)
   \<and> editorNotFound nm p =
        ''Cannot launch '' @ nm @ '': '' @ [CHR 0x22] @ p @ [CHR 0x22]
        @ '' not found. Please check the editor path config.''
   \<and> executionFailed nm err = ''Failed to launch '' @ nm @ '': '' @ err"
proof -
  let ?nf = "sublist ''ENOENT'' (message e) \<or> sublist ''not found'' (message e)
         \<or> sublist not_found_zh (message e) \<or> code e = Some 127"
  have eq: "executeCommand host config (Some e) w =
     (if ?nf
      then (w\<lparr>shownErrors := shownErrors w @
                [editorNotFound (name config)
                   (if path config \<noteq> [] then path config
                    else getDefaultPath host (os_platform host) (Some (name config)))]\<rparr>,
            Inl (editorNotFound (name config)
                   (if path config \<noteq> [] then path config
                    else getDefaultPath host (os_platform host) (Some (name config)))))
      else (w\<lparr>shownErrors := shownErrors w @ [executionFailed (name config) (message e)]\<rparr>,
            Inl (executionFailed (name config) (message e))))"
    by (simp add: executeCommand_def includes_str_sublist showErrorMessage_def Let_def)
  have cls: "(\<exists>p. snd (executeCommand host config (Some e) w) = Inl (editorNotFound (name config) p))
        \<longleftrightarrow> ?nf"
    unfolding eq by (cases ?nf) (auto simp: messages_differ)
  have jmp: "buildCommand ns host config context = Inr command \<and> run command = Some e \<longrightarrow>
        jump ns run host config context w = executeCommand host config (Some e) w"
    by (simp add: jump_def)
  have m1: "editorNotFound nm p =
        ''Cannot launch '' @ nm @ '': '' @ [CHR 0x22] @ p @ [CHR 0x22]
        @ '' not found. Please check the editor path config.''"
    by (simp add: editorNotFound_def)
  have m2: "executionFailed nm err = ''Failed to launch '' @ nm @ '': '' @ err"
    by (simp add: executionFailed_def)
  from eq cls jmp m1 m2 show ?thesis by blast
qed

theorem executeCommand_failure_witness:
  \<open>jump (\<lambda>i. ''1e+21'') (\<lambda>command. Some \<lparr>message = ''Command failed: spawn /bin/sh ENOENT'', code = None\<rparr>)
      \<lparr>os_platform = ''linux'', env_LOCALAPPDATA = None, os_homedir = ''/home/u''\<rparr>
      \<lparr>name = ''WebStorm'', type = jetbrains, path = [], urlScheme = Some ''webstorm''\<rparr>
      \<lparr>filePath = Some ''/w/a.ts'', projectPath = None, line = Some (Finite 42), column = Some (Finite 7)\<rparr>
      \<lparr>shownErrors = [], shownInfos = []\<rparr>
     = (\<lparr>shownErrors =
          [''Cannot launch WebStorm: "/home/u/.local/share/JetBrains/Toolbox/scripts/webstorm" not found. Please check the editor path config.''],
         shownInfos = []\<rparr>,
        Inl ''Cannot launch WebStorm: "/home/u/.local/share/JetBrains/Toolbox/scripts/webstorm" not found. Please check the editor path config.'')\<close>
proof -
  let ?host = "\<lparr>os_platform = ''linux'', env_LOCALAPPDATA = None, os_homedir = ''/home/u''\<rparr>"
  let ?config = "\<lparr>name = ''WebStorm'', type = jetbrains, path = [], urlScheme = Some ''webstorm''\<rparr>"
  let ?ctx = "\<lparr>filePath = Some ''/w/a.ts'', projectPath = None, line = Some (Finite 42), column = Some (Finite 7)\<rparr>"
  let ?e = "\<lparr>message = ''Command failed: spawn /bin/sh ENOENT'', code = None\<rparr>"
  let ?w = "\<lparr>shownErrors = [], shownInfos = []\<rparr>"
  have dp: "getDefaultPath ?host ''linux'' (Some ''WebStorm'')
              = ''/home/u/.local/share/JetBrains/Toolbox/scripts/webstorm''"
    by (simp add: getDefaultPath_def appNameMap_def toLowerCase_def lower_char_def)
  have cmd: \<open>buildCommand (\<lambda>i. ''1e+21'') ?host ?config ?ctx
               = Inr ''"/home/u/.local/share/JetBrains/Toolbox/scripts/webstorm" --line 42 --column 7 "/w/a.ts"''\<close>
    by (simp add: buildCommand_def buildCliCommand_def dp show_num_def show_int_def show_nat.simps digit_char_def)
  have nf: "sublist ''ENOENT'' (message ?e)"
    by (simp add: includes_str_sublist [symmetric])
  from executeCommand_failure
    [of ?host ?config ?e ?w "\<lambda>i. ''1e+21''" ?ctx
        \<open>''"/home/u/.local/share/JetBrains/Toolbox/scripts/webstorm" --line 42 --column 7 "/w/a.ts"''\<close>
        "\<lambda>command. Some ?e" "''WebStorm''"
        "''/home/u/.local/share/JetBrains/Toolbox/scripts/webstorm''" "''x''"]
    cmd nf
  show ?thesis
    by (simp add: dp)
qed

section \<open>Saving and removing in the stored list\<close>

lemma splice_one: "splice_arr xs i (Suc 0) = take i xs @ drop (Suc i) xs"
  by (cases "i < length xs") (simp_all add: splice_arr_def Let_def min_def)

lemma stored_editors_update [simp]:
  "stored_editors (config\<lparr>editors := Some es\<rparr>) = es"
  by (simp add: stored_editors_def)

text \<open>
  C7. Whatever the stored list, \<open>saveEditor\<close> writes back the list read with the one new
  entry after its last: the entries before keep their positions and values and the length
  grows by one. \<open>removeEditor\<close> writes back the list without the entry at the given
  position: when the position is one of the list, the length shrinks by one, the entries
  before it are unchanged and every later entry moves down by one position. Neither
  touches the legacy key.
\<close>

theorem save_appends_remove_shifts:
  "stored_editors (saveEditor e config) = stored_editors config @ [e]
   \<and> length (stored_editors (saveEditor e config)) = Suc (length (stored_editors config))
   \<and> (\<forall>j < length (stored_editors config).
         stored_editors (saveEditor e config) ! j = stored_editors config ! j)
   \<and> stored_editors (saveEditor e config) ! length (stored_editors config) = e
   \<and> ideaPath (saveEditor e config) = ideaPath config
   \<and> stored_editors (removeEditor i config)
       = take i (stored_editors config) @ drop (Suc i) (stored_editors config)
   \<and> ideaPath (removeEditor i config) = ideaPath config
   \<and> (i < length (stored_editors config) \<longrightarrow>
         Suc (length (stored_editors (removeEditor i config))) = length (stored_editors config)
         \<and> (\<forall>j < i. stored_editors (removeEditor i config) ! j = stored_editors config ! j)
         \<and> (\<forall>j. i \<le> j \<and> Suc j < length (stored_editors config) \<longrightarrow>
               stored_editors (removeEditor i config) ! j = stored_editors config ! Suc j))"
  by (auto simp: saveEditor_def removeEditor_def splice_one nth_append min_def)

theorem save_appends_remove_shifts_witness:
  "stored_editors (saveEditor ed_c \<lparr>editors = Some [ed_a, ed_b], ideaPath = None\<rparr>) = [ed_a, ed_b, ed_c]
   \<and> stored_editors (removeEditor 1 \<lparr>editors = Some [ed_a, ed_b, ed_c], ideaPath = None\<rparr>) ! 0 = ed_a
   \<and> stored_editors (removeEditor 1 \<lparr>editors = Some [ed_a, ed_b, ed_c], ideaPath = None\<rparr>) ! 1 = ed_c
   \<and> length (stored_editors (removeEditor 1 \<lparr>editors = Some [ed_a, ed_b, ed_c], ideaPath = None\<rparr>)) = 2"
  using
    save_appends_remove_shifts [of ed_c "\<lparr>editors = Some [ed_a, ed_b], ideaPath = None\<rparr>" 0]
    save_appends_remove_shifts [of ed_c "\<lparr>editors = Some [ed_a, ed_b, ed_c], ideaPath = None\<rparr>" 1]
  by (simp add: stored_editors_def)

section \<open>The open-file command\<close>

text \<open>
  C8. Called with a URI, the open-file command jumps with the path of the URI as the file
  path; the line (cursor line plus one) and the column (cursor character) of the active
  editor are taken when its document has that same path, and otherwise the line is 1 and
  the column 0, whatever the cursor. Called without a URI, it jumps with the path, line
  plus one and character of the active editor, and when there is no active editor it
  shows "No active file! Please open a file first." and returns without a jump.
\<close>

theorem openFileInIDEA_context:
  "(ed = Some e \<and> document_fsPath e = fp \<longrightarrow>
      openFileInIDEA (Some fp) ed w =
        (w, Some \<lparr>filePath = Some fp, projectPath = None,
                   line = Some (Finite (of_nat (active_line e) + 1)),
                   column = Some (Finite (of_nat (active_character e)))\<rparr>))
   \<and> (\<not> (\<exists>e'. ed = Some e' \<and> document_fsPath e' = fp) \<longrightarrow>
      openFileInIDEA (Some fp) ed w =
        (w, Some \<lparr>filePath = Some fp, projectPath = None,
                   line = Some (Finite 1), column = Some (Finite 0)\<rparr>))
   \<and> openFileInIDEA None (Some e) w =
        (w, Some \<lparr>filePath = Some (document_fsPath e), projectPath = None,
                   line = Some (Finite (of_nat (active_line e) + 1)),
                   column = Some (Finite (of_nat (active_character e)))\<rparr>)
   \<and> openFileInIDEA None None w =
        (w\<lparr>shownErrors := shownErrors w @ [''No active file! Please open a file first.'']\<rparr>, None)"
  by (auto simp: openFileInIDEA_def showErrorMessage_def noActiveEditor_def split: option.splits)

theorem openFileInIDEA_context_witness:
  "openFileInIDEA (Some ''/w/a.ts'')
      (Some \<lparr>document_fsPath = ''/w/a.ts'', active_line = 41, active_character = 7\<rparr>)
      \<lparr>shownErrors = [], shownInfos = []\<rparr>
     = (\<lparr>shownErrors = [], shownInfos = []\<rparr>,
        Some \<lparr>filePath = Some ''/w/a.ts'', projectPath = None, line = Some (Finite 42), column = Some (Finite 7)\<rparr>)
   \<and> openFileInIDEA (Some ''/w/b.ts'')
      (Some \<lparr>document_fsPath = ''/w/a.ts'', active_line = 41, active_character = 7\<rparr>)
      \<lparr>shownErrors = [], shownInfos = []\<rparr>
     = (\<lparr>shownErrors = [], shownInfos = []\<rparr>,
        Some \<lparr>filePath = Some ''/w/b.ts'', projectPath = None, line = Some (Finite 1), column = Some (Finite 0)\<rparr>)"
  using
    openFileInIDEA_context
      [of "Some \<lparr>document_fsPath = ''/w/a.ts'', active_line = 41, active_character = 7\<rparr>"
          "\<lparr>document_fsPath = ''/w/a.ts'', active_line = 41, active_character = 7\<rparr>"
          "''/w/a.ts''" "\<lparr>shownErrors = [], shownInfos = []\<rparr>"]
    openFileInIDEA_context
      [of "Some \<lparr>document_fsPath = ''/w/a.ts'', active_line = 41, active_character = 7\<rparr>"
          "\<lparr>document_fsPath = ''/w/a.ts'', active_line = 41, active_character = 7\<rparr>"
          "''/w/b.ts''" "\<lparr>shownErrors = [], shownInfos = []\<rparr>"]
  by simp

section \<open>The handler registry\<close>

text \<open>
  C9. For a type with no registered handler \<open>getHandler\<close> throws the error whose message
  names the type and lists jetbrains as the supported types. In the registry as the
  constructor leaves it the types without a handler are exactly custom; for custom the
  message is "Unsupported editor type: custom. Currently supported types: jetbrains",
  and for jetbrains the JetBrains handler is returned.
\<close>

theorem getHandler_registry:
  "(handlers t = None \<longrightarrow>
      getHandler handlers t =
        Inl (''Unsupported editor type: '' @ type_str t @ ''. Currently supported types: jetbrains''))
   \<and> (new_JumpHandlerFactory t = None \<longleftrightarrow> t = custom)
   \<and> getHandler new_JumpHandlerFactory custom =
        Inl ''Unsupported editor type: custom. Currently supported types: jetbrains''
   \<and> getHandler new_JumpHandlerFactory jetbrains = Inr JetBrainsHandler"
  by (cases t) (simp_all add: getHandler_def new_JumpHandlerFactory_def unsupportedType_def)

theorem getHandler_registry_witness:
  "new_JumpHandlerFactory custom = None
   \<and> getHandler new_JumpHandlerFactory custom =
       Inl (''Unsupported editor type: '' @ type_str custom @ ''. Currently supported types: jetbrains'')"
  using getHandler_registry [of new_JumpHandlerFactory custom]
  by simp

section \<open>Deleting a row that the stored list does not hold\<close>

lemma getEditors_stored: "getEditors (config\<lparr>editors := Some (stored_editors config)\<rparr>) = getEditors config"
  by (simp add: getEditors_def getEditors_legacy_def stored_editors_def split: option.splits)

lemma length_getEditors_stored:
  "stored_editors config \<noteq> [] \<Longrightarrow> getEditors config = stored_editors config"
  by (auto simp: getEditors_def stored_editors_def split: option.splits)

lemma length_getEditors_empty:
  "stored_editors config = [] \<Longrightarrow> length (getEditors config) = 1"
  by (auto simp: getEditors_def getEditors_legacy_def getDefaultEditors_def stored_editors_def
      split: option.splits)

lemma rows_of_getChildren:
  "EditorItem item \<in> set (getChildren config) \<longleftrightarrow>
     index item < length (getEditors config) \<and> editor item = getEditors config ! index item"
proof -
  have "EditorItem item \<in> set (getChildren config) \<longleftrightarrow>
          (index item, editor item) \<in> set (enumerate 0 (getEditors config))"
    by (cases item) (force simp: getChildren_def)
  then show ?thesis
    by (auto simp: in_set_enumerate_eq)
qed

text \<open>
  C10. When the position of the row is past the end of the stored list, a confirmed
  delete leaves the stored list and the legacy key as they were: \<open>removeEditor\<close> splices
  out of range and writes back the list it read. The flow still reports "Editor deleted"
  with the name of the row, and the effective list and the rows rendered from it after
  the delete are those before it, so the row reappears. The tree has such a row exactly
  when the stored list is empty, which is when it is shorter than the rendered list.
\<close>

theorem delete_out_of_range_row:
  "(length (stored_editors config) \<le> index item \<longrightarrow>
      editors (fst (deleteEditor item (Some ''Delete'') (config, w))) = Some (stored_editors config)
      \<and> stored_editors (fst (deleteEditor item (Some ''Delete'') (config, w))) = stored_editors config
      \<and> ideaPath (fst (deleteEditor item (Some ''Delete'') (config, w))) = ideaPath config
      \<and> shownInfos (snd (deleteEditor item (Some ''Delete'') (config, w)))
          = shownInfos w @ [''Editor deleted: '' @ name (editor item)]
      \<and> getEditors (fst (deleteEditor item (Some ''Delete'') (config, w))) = getEditors config
      \<and> getChildren (fst (deleteEditor item (Some ''Delete'') (config, w))) = getChildren config)
   \<and> ((\<exists>row. EditorItem row \<in> set (getChildren config)
              \<and> length (stored_editors config) \<le> index row)
        \<longleftrightarrow> stored_editors config = [])
   \<and> (length (stored_editors config) < length (getEditors config)
        \<longleftrightarrow> stored_editors config = [])"
proof -
  have shorter: "length (stored_editors config) < length (getEditors config)
                   \<longleftrightarrow> stored_editors config = []"
    using length_getEditors_empty [of config] length_getEditors_stored [of config]
    by (cases "stored_editors config = []") auto
  have rows: "(\<exists>row. EditorItem row \<in> set (getChildren config)
                \<and> length (stored_editors config) \<le> index row)
              \<longleftrightarrow> stored_editors config = []"
  proof (cases "stored_editors config = []")
    case True
    then have "EditorItem \<lparr>editor = getEditors config ! 0, index = 0\<rparr> \<in> set (getChildren config)"
      by (simp add: rows_of_getChildren length_getEditors_empty)
    with True show ?thesis by force
  next
    case False
    then show ?thesis
      by (auto simp: rows_of_getChildren length_getEditors_stored)
  qed
  have frame: "length (stored_editors config) \<le> index item \<Longrightarrow>
      removeEditor (index item) config = config\<lparr>editors := Some (stored_editors config)\<rparr>"
    by (simp add: removeEditor_def splice_one)
  show ?thesis
    using rows shorter
    by (auto simp: deleteEditor_def frame getEditors_stored getChildren_def
        showInformationMessage_def)
qed

theorem delete_out_of_range_row_witness:
  "getChildren \<lparr>editors = Some [], ideaPath = Some ''/opt/idea''\<rparr>
     = [EditorItem \<lparr>editor = \<lparr>name = ''IntelliJ IDEA'', type = jetbrains, path = ''/opt/idea'',
                                  urlScheme = Some ''idea''\<rparr>, index = 0\<rparr>,
        AddEditorTreeItem]
   \<and> stored_editors (fst (deleteEditor
        \<lparr>editor = \<lparr>name = ''IntelliJ IDEA'', type = jetbrains, path = ''/opt/idea'',
                     urlScheme = Some ''idea''\<rparr>, index = 0\<rparr>
        (Some ''Delete'')
        (\<lparr>editors = Some [], ideaPath = Some ''/opt/idea''\<rparr>, \<lparr>shownErrors = [], shownInfos = []\<rparr>))) = []
   \<and> shownInfos (snd (deleteEditor
        \<lparr>editor = \<lparr>name = ''IntelliJ IDEA'', type = jetbrains, path = ''/opt/idea'',
                     urlScheme = Some ''idea''\<rparr>, index = 0\<rparr>
        (Some ''Delete'')
        (\<lparr>editors = Some [], ideaPath = Some ''/opt/idea''\<rparr>, \<lparr>shownErrors = [], shownInfos = []\<rparr>)))
      = [''Editor deleted: IntelliJ IDEA'']
   \<and> getChildren (fst (deleteEditor
        \<lparr>editor = \<lparr>name = ''IntelliJ IDEA'', type = jetbrains, path = ''/opt/idea'',
                     urlScheme = Some ''idea''\<rparr>, index = 0\<rparr>
        (Some ''Delete'')
        (\<lparr>editors = Some [], ideaPath = Some ''/opt/idea''\<rparr>, \<lparr>shownErrors = [], shownInfos = []\<rparr>)))
      = [EditorItem \<lparr>editor = \<lparr>name = ''IntelliJ IDEA'', type = jetbrains, path = ''/opt/idea'',
                                  urlScheme = Some ''idea''\<rparr>, index = 0\<rparr>,
        AddEditorTreeItem]"
  using delete_out_of_range_row
    [of "\<lparr>editors = Some [], ideaPath = Some ''/opt/idea''\<rparr>"
        "\<lparr>editor = \<lparr>name = ''IntelliJ IDEA'', type = jetbrains, path = ''/opt/idea'',
                     urlScheme = Some ''idea''\<rparr>, index = 0\<rparr>"
        "\<lparr>shownErrors = [], shownInfos = []\<rparr>"]
  by (simp add: stored_editors_def getChildren_def getEditors_def getEditors_legacy_def)

end
